theory Spec2Isabelle
  imports Complex_Main
begin

section \<open>Python values and the object store\<close>

text \<open>
  The dumpers receive an arbitrary nested Python value.  Scalars and tuples are immutable
  and are modelled as immediate values; lists, dicts and sets are mutated in place by the
  sanitiser, so they live in a store and are named by their address.  A dict and a set
  carry their elements in the order in which \<^verbatim>\<open>for ... in\<close> yields them; dict keys are
  strings.  A float is the rational it denotes (finite floats only).  The flag of a dict
  tells a \<^verbatim>\<open>plistlib._InternalDict\<close> from a plain \<^verbatim>\<open>dict\<close>.
\<close>

type_synonym addr = nat

datatype pyval =
    PNone
  | PBool bool
  | PInt int
  | PFloat rat
  | PStr string
  | PDate nat nat nat
  | PDatetime nat nat nat nat nat nat nat
  | PData string
  | PTuple "pyval list"
  | PRef addr

datatype pyobj =
    PList "pyval list"
  | PDict bool "(string \<times> pyval) list"
  | PSet "pyval list"

type_synonym heap = "pyobj list"

text \<open>An exception: the name of its class and its \<^verbatim>\<open>str()\<close> form.  All classes that
  occur are subclasses of \<^verbatim>\<open>Exception\<close>.\<close>

datatype exn = Exn string string

fun exn_str :: "exn \<Rightarrow> string" where
  "exn_str (Exn c m) = m"

definition recursion_error :: exn where
  "recursion_error = Exn ''RuntimeError'' ''maximum recursion depth exceeded''"

definition heap_get :: "heap \<Rightarrow> addr \<Rightarrow> pyobj option" where
  "heap_get h a = (if a < length h then Some (h ! a) else None)"

definition dangling :: exn where
  "dangling = Exn ''SystemError'' ''reference outside the store''"

subsection \<open>Equality as \<^verbatim>\<open>==\<close> computes it\<close>

text \<open>
  \<^verbatim>\<open>bool\<close>, \<^verbatim>\<open>int\<close> and \<^verbatim>\<open>float\<close> compare by numeric value (\<^verbatim>\<open>True == 1 == 1.0\<close>);
  a \<^verbatim>\<open>plistlib.Data\<close> compares equal to another one and to a string with the same
  payload; a date never equals a datetime.
\<close>

fun num_of :: "pyval \<Rightarrow> rat option" where
  "num_of (PBool b) = Some (if b then 1 else 0)"
| "num_of (PInt i) = Some (of_int i)"
| "num_of (PFloat r) = Some r"
| "num_of v = None"

fun payload_of :: "pyval \<Rightarrow> string option" where
  "payload_of (PStr s) = Some s"
| "payload_of (PData s) = Some s"
| "payload_of v = None"

definition scalar_eq :: "pyval \<Rightarrow> pyval \<Rightarrow> bool" where
  "scalar_eq a b =
     (case num_of a of
        Some x \<Rightarrow> (case num_of b of Some y \<Rightarrow> x = y | None \<Rightarrow> False)
      | None \<Rightarrow>
         (case payload_of a of
            Some s \<Rightarrow> (case payload_of b of Some t \<Rightarrow> s = t | None \<Rightarrow> False)
          | None \<Rightarrow> a = b))"

text \<open>
  Containers compare element by element, each step one level deeper in the interpreter's
  recursion; \<open>d\<close> is the depth that is left, and running out of it is the
  \<^verbatim>\<open>RuntimeError\<close> of the interpreter.  The same object is equal to itself without
  looking inside (the identity shortcut of \<^verbatim>\<open>in\<close> and of element comparison).
  Containers of different length or of different type are unequal at once.
\<close>

datatype cmp =
    Decided bool
  | Fault exn
  | Elements "pyval list" "pyval list"
  | Items "(string \<times> pyval) list" "(string \<times> pyval) list"
  | Members "pyval list" "pyval list"

definition cmp_objs :: "pyobj \<Rightarrow> pyobj \<Rightarrow> cmp" where
  "cmp_objs ox oy =
     (case ox of
        PList xs \<Rightarrow>
          (case oy of
             PList ys \<Rightarrow> if length xs \<noteq> length ys then Decided False else Elements xs ys
           | _ \<Rightarrow> Decided False)
      | PDict fx xs \<Rightarrow>
          (case oy of
             PDict fy ys \<Rightarrow> if length xs \<noteq> length ys then Decided False else Items xs ys
           | _ \<Rightarrow> Decided False)
      | PSet xs \<Rightarrow>
          (case oy of
             PSet ys \<Rightarrow> if length xs \<noteq> length ys then Decided False else Members xs ys
           | _ \<Rightarrow> Decided False))"

definition cmp_vals :: "heap \<Rightarrow> pyval \<Rightarrow> pyval \<Rightarrow> cmp" where
  "cmp_vals h a b =
     (case a of
        PRef x \<Rightarrow>
          (case b of
             PRef y \<Rightarrow>
               if x = y then Decided True
               else (case heap_get h x of
                  None \<Rightarrow> Fault dangling
                | Some ox \<Rightarrow>
                   (case heap_get h y of
                      None \<Rightarrow> Fault dangling
                    | Some oy \<Rightarrow> cmp_objs ox oy))
           | _ \<Rightarrow> Decided False)
      | PTuple xs \<Rightarrow>
          (case b of
             PTuple ys \<Rightarrow> if length xs \<noteq> length ys then Decided False else Elements xs ys
           | _ \<Rightarrow> Decided False)
      | _ \<Rightarrow> Decided (scalar_eq a b))"

text \<open>The loops of the comparisons, over the comparison \<open>eq\<close> of two elements: a
  sequence against a sequence, the items of a dict against another dict, \<^verbatim>\<open>x in ys\<close>,
  and a set against a set of the same size.\<close>

fun eq_list :: "(pyval \<Rightarrow> pyval \<Rightarrow> exn + bool) \<Rightarrow> pyval list \<Rightarrow> pyval list \<Rightarrow> exn + bool" where
  "eq_list eq [] ys = Inr True"
| "eq_list eq (x # xs) [] = Inr False"
| "eq_list eq (x # xs) (y # ys) =
     (case eq x y of
        Inl e \<Rightarrow> Inl e
      | Inr r \<Rightarrow> if r then eq_list eq xs ys else Inr False)"

fun eq_items :: "(pyval \<Rightarrow> pyval \<Rightarrow> exn + bool) \<Rightarrow> (string \<times> pyval) list \<Rightarrow> (string \<times> pyval) list \<Rightarrow> exn + bool" where
  "eq_items eq [] ys = Inr True"
| "eq_items eq (kv # xs) ys =
     (case map_of ys (fst kv) of
        None \<Rightarrow> Inr False
      | Some w \<Rightarrow>
         (case eq (snd kv) w of
            Inl e \<Rightarrow> Inl e
          | Inr r \<Rightarrow> if r then eq_items eq xs ys else Inr False))"

fun contains :: "(pyval \<Rightarrow> pyval \<Rightarrow> exn + bool) \<Rightarrow> pyval \<Rightarrow> pyval list \<Rightarrow> exn + bool" where
  "contains eq x [] = Inr False"
| "contains eq x (y # ys) =
     (case eq x y of
        Inl e \<Rightarrow> Inl e
      | Inr r \<Rightarrow> if r then Inr True else contains eq x ys)"

fun subset_of :: "(pyval \<Rightarrow> pyval \<Rightarrow> exn + bool) \<Rightarrow> pyval list \<Rightarrow> pyval list \<Rightarrow> exn + bool" where
  "subset_of eq [] ys = Inr True"
| "subset_of eq (x # xs) ys =
     (case contains eq x ys of
        Inl e \<Rightarrow> Inl e
      | Inr r \<Rightarrow> if r then subset_of eq xs ys else Inr False)"

fun py_eq :: "nat \<Rightarrow> heap \<Rightarrow> pyval \<Rightarrow> pyval \<Rightarrow> exn + bool" where
  "py_eq d h a b =
     (case cmp_vals h a b of
        Decided r \<Rightarrow> Inr r
      | Fault e \<Rightarrow> Inl e
      | Elements xs ys \<Rightarrow> if d = 0 then Inl recursion_error else eq_list (py_eq (d - 1) h) xs ys
      | Items xs ys \<Rightarrow> if d = 0 then Inl recursion_error else eq_items (py_eq (d - 1) h) xs ys
      | Members xs ys \<Rightarrow> if d = 0 then Inl recursion_error else subset_of (py_eq (d - 1) h) xs ys)"

definition py_in :: "nat \<Rightarrow> heap \<Rightarrow> pyval \<Rightarrow> pyval list \<Rightarrow> exn + bool" where
  "py_in d h x ys = contains (py_eq d h) x ys"


section \<open>The sanitiser: \<^verbatim>\<open>DumperProto._validate_data\<close>\<close>

subsection \<open>Rules\<close>

text \<open>
  A rule is a pair \<^verbatim>\<open>(is_invalid, validate)\<close>.  The test reads the value; the second
  component is called on it.  What is called is either a function, which returns a value
  and the objects it has created (they are appended to the store), or an object that is
  not a function at all, as the \<^verbatim>\<open>False\<close> of the property list dumper: calling it fails.
\<close>

datatype callee =
    PyFun "heap \<Rightarrow> pyval \<Rightarrow> exn + pyval \<times> pyobj list"
  | PyConst pyval

type_synonym rule = "(heap \<Rightarrow> pyval \<Rightarrow> exn + bool) \<times> callee"

definition py_type :: "heap \<Rightarrow> pyval \<Rightarrow> string" where
  "py_type h v =
     (case v of
        PNone \<Rightarrow> ''NoneType''
      | PBool b \<Rightarrow> ''bool''
      | PInt i \<Rightarrow> ''int''
      | PFloat r \<Rightarrow> ''float''
      | PStr s \<Rightarrow> ''str''
      | PDate y m d \<Rightarrow> ''datetime.date''
      | PDatetime y m d hh mi s us \<Rightarrow> ''datetime.datetime''
      | PData s \<Rightarrow> ''instance''
      | PTuple xs \<Rightarrow> ''tuple''
      | PRef a \<Rightarrow>
          (case heap_get h a of
             Some (PList xs) \<Rightarrow> ''list''
           | Some (PDict f xs) \<Rightarrow> if f then ''_InternalDict'' else ''dict''
           | Some (PSet xs) \<Rightarrow> ''set''
           | None \<Rightarrow> ''object''))"

definition not_callable :: "heap \<Rightarrow> pyval \<Rightarrow> exn" where
  "not_callable h c =
     (case c of
        PData s \<Rightarrow> Exn ''AttributeError'' ''Data instance has no __call__ method''
      | _ \<Rightarrow> Exn ''TypeError'' ([CHR 0x27] @ py_type h c @ [CHR 0x27] @ '' object is not callable''))"

fun call :: "callee \<Rightarrow> heap \<Rightarrow> pyval \<Rightarrow> exn + pyval \<times> heap" where
  "call (PyFun f) h v =
     (case f h v of
        Inl e \<Rightarrow> Inl e
      | Inr r \<Rightarrow> Inr (fst r, h @ snd r))"
| "call (PyConst c) h v = Inl (not_callable h c)"

text \<open>\<^verbatim>\<open>for is_invalid, validate in funcs: if is_invalid(obj): obj = validate(obj)\<close>\<close>

fun apply_rules :: "rule list \<Rightarrow> pyval \<Rightarrow> heap \<Rightarrow> exn + pyval \<times> heap" where
  "apply_rules [] obj h = Inr (obj, h)"
| "apply_rules (r # rs) obj h =
     (case fst r h obj of
        Inl e \<Rightarrow> Inl e
      | Inr b \<Rightarrow>
          if b then
            (case call (snd r) h obj of
               Inl e \<Rightarrow> Inl e
             | Inr p \<Rightarrow> apply_rules rs (fst p) (snd p))
          else apply_rules rs obj h)"

subsection \<open>Reading and writing containers in the store\<close>

definition index_error :: exn where
  "index_error = Exn ''IndexError'' ''list index out of range''"

definition key_error :: "string \<Rightarrow> exn" where
  "key_error k = Exn ''KeyError'' k"

definition list_item :: "heap \<Rightarrow> addr \<Rightarrow> nat \<Rightarrow> exn + pyval" where
  "list_item h a i =
     (case heap_get h a of
        Some (PList xs) \<Rightarrow> if i < length xs then Inr (xs ! i) else Inl index_error
      | _ \<Rightarrow> Inl dangling)"

definition list_store :: "heap \<Rightarrow> addr \<Rightarrow> nat \<Rightarrow> pyval \<Rightarrow> exn + heap" where
  "list_store h a i v =
     (case heap_get h a of
        Some (PList xs) \<Rightarrow>
          if i < length xs then Inr (h[a := PList (xs[i := v])]) else Inl index_error
      | _ \<Rightarrow> Inl dangling)"

definition dict_item :: "heap \<Rightarrow> addr \<Rightarrow> string \<Rightarrow> exn + pyval" where
  "dict_item h a k =
     (case heap_get h a of
        Some (PDict f kvs) \<Rightarrow>
          (case map_of kvs k of None \<Rightarrow> Inl (key_error k) | Some v \<Rightarrow> Inr v)
      | _ \<Rightarrow> Inl dangling)"

fun dict_set :: "'k \<Rightarrow> 'v \<Rightarrow> ('k \<times> 'v) list \<Rightarrow> ('k \<times> 'v) list" where
  "dict_set k v [] = [(k, v)]"
| "dict_set k v (kv # kvs) = (if fst kv = k then (k, v) # kvs else kv # dict_set k v kvs)"

definition dict_store :: "heap \<Rightarrow> addr \<Rightarrow> string \<Rightarrow> pyval \<Rightarrow> exn + heap" where
  "dict_store h a k v =
     (case heap_get h a of
        Some (PDict f kvs) \<Rightarrow> Inr (h[a := PDict f (dict_set k v kvs)])
      | _ \<Rightarrow> Inl dangling)"

definition set_elems :: "heap \<Rightarrow> addr \<Rightarrow> exn + pyval list" where
  "set_elems h a =
     (case heap_get h a of
        Some (PSet xs) \<Rightarrow> Inr xs
      | _ \<Rightarrow> Inl dangling)"

text \<open>What can be a member of a set: lists, dicts and sets cannot, nor can a
  \<^verbatim>\<open>plistlib.Data\<close> (an instance with \<^verbatim>\<open>__cmp__\<close> and no \<^verbatim>\<open>__hash__\<close>).\<close>

fun hashable :: "pyval \<Rightarrow> bool" where
  "hashable (PRef a) = False"
| "hashable (PData s) = False"
| "hashable (PTuple xs) = list_all hashable xs"
| "hashable v = True"

definition unhashable :: "heap \<Rightarrow> pyval \<Rightarrow> exn" where
  "unhashable h v =
     Exn ''TypeError'' (''unhashable type: '' @ [CHR 0x27] @ py_type h v @ [CHR 0x27])"

text \<open>\<^verbatim>\<open>obj.remove(val)\<close>: the member equal to \<open>val\<close> goes, \<^verbatim>\<open>KeyError\<close> when there is
  none.\<close>

fun remove_member :: "(pyval \<Rightarrow> pyval \<Rightarrow> exn + bool) \<Rightarrow> pyval \<Rightarrow> pyval list \<Rightarrow> exn + pyval list" where
  "remove_member eq v [] = Inl (Exn ''KeyError'' ''remove'')"
| "remove_member eq v (x # xs) =
     (case eq v x of
        Inl e \<Rightarrow> Inl e
      | Inr r \<Rightarrow>
          if r then Inr xs
          else (case remove_member eq v xs of Inl e \<Rightarrow> Inl e | Inr ys \<Rightarrow> Inr (x # ys)))"

definition set_remove :: "nat \<Rightarrow> heap \<Rightarrow> addr \<Rightarrow> pyval \<Rightarrow> exn + heap" where
  "set_remove d h a v =
     (case set_elems h a of
        Inl e \<Rightarrow> Inl e
      | Inr xs \<Rightarrow>
          if \<not> hashable v then Inl (unhashable h v)
          else (case remove_member (py_eq d h) v xs of
                  Inl e \<Rightarrow> Inl e
                | Inr ys \<Rightarrow> Inr (h[a := PSet ys])))"

text \<open>\<^verbatim>\<open>obj.add(new_val)\<close>: nothing changes when an equal member is there already.\<close>

definition set_add :: "nat \<Rightarrow> heap \<Rightarrow> addr \<Rightarrow> pyval \<Rightarrow> exn + heap" where
  "set_add d h a v =
     (case set_elems h a of
        Inl e \<Rightarrow> Inl e
      | Inr xs \<Rightarrow>
          if \<not> hashable v then Inl (unhashable h v)
          else (case py_in d h v xs of
                  Inl e \<Rightarrow> Inl e
                | Inr r \<Rightarrow> if r then Inr h else Inr (h[a := PSet (xs @ [v])])))"


subsection \<open>The walk\<close>

text \<open>
  The state of a walk is the store and the list \<^verbatim>\<open>checked\<close>.  The list holds references:
  a container that is mutated after it was appended is seen in its new state by every
  later \<^verbatim>\<open>obj in checked\<close>.
\<close>

type_synonym walk = "heap \<times> pyval list"

type_synonym visit = "pyval \<Rightarrow> walk \<Rightarrow> exn + pyval \<times> walk"

text \<open>\<^verbatim>\<open>for key in obj: obj[key] = check_recursive(obj[key])\<close>, over the keys the dict had
  when the loop began.\<close>

fun dict_loop :: "visit \<Rightarrow> addr \<Rightarrow> string list \<Rightarrow> walk \<Rightarrow> exn + walk" where
  "dict_loop rec a [] st = Inr st"
| "dict_loop rec a (k # ks) st =
     (case dict_item (fst st) a k of
        Inl e \<Rightarrow> Inl e
      | Inr v \<Rightarrow>
         (case rec v st of
            Inl e \<Rightarrow> Inl e
          | Inr r \<Rightarrow>
             (case dict_store (fst (snd r)) a k (fst r) of
                Inl e \<Rightarrow> Inl e
              | Inr h' \<Rightarrow> dict_loop rec a ks (h', snd (snd r)))))"

text \<open>\<^verbatim>\<open>for i in range(len(obj)): obj[i] = check_recursive(obj[i])\<close>\<close>

fun list_loop :: "visit \<Rightarrow> addr \<Rightarrow> nat list \<Rightarrow> walk \<Rightarrow> exn + walk" where
  "list_loop rec a [] st = Inr st"
| "list_loop rec a (i # is) st =
     (case list_item (fst st) a i of
        Inl e \<Rightarrow> Inl e
      | Inr v \<Rightarrow>
         (case rec v st of
            Inl e \<Rightarrow> Inl e
          | Inr r \<Rightarrow>
             (case list_store (fst (snd r)) a i (fst r) of
                Inl e \<Rightarrow> Inl e
              | Inr h' \<Rightarrow> list_loop rec a is (h', snd (snd r)))))"

text \<open>\<^verbatim>\<open>[check_recursive(sub_obj) for sub_obj in obj]\<close>\<close>

fun tuple_loop :: "visit \<Rightarrow> pyval list \<Rightarrow> walk \<Rightarrow> exn + pyval list \<times> walk" where
  "tuple_loop rec [] st = Inr ([], st)"
| "tuple_loop rec (x # xs) st =
     (case rec x st of
        Inl e \<Rightarrow> Inl e
      | Inr r \<Rightarrow>
         (case tuple_loop rec xs (snd r) of
            Inl e \<Rightarrow> Inl e
          | Inr q \<Rightarrow> Inr (fst r # fst q, snd q)))"

text \<open>
  The loop over a set, which removes and adds members while it iterates.  The iterator
  yields the members the set had when the loop began, in their order; a member added by
  the loop is not yielded (whether the interpreter's iterator reaches it depends on the
  slot of the hash table it lands in).  Each time the iterator is advanced, also the last
  time, it raises when the size of the set is not the one it started with.
\<close>

definition set_changed :: exn where
  "set_changed = Exn ''RuntimeError'' ''Set changed size during iteration''"

fun set_loop :: "visit \<Rightarrow> nat \<Rightarrow> addr \<Rightarrow> nat \<Rightarrow> pyval list \<Rightarrow> walk \<Rightarrow> exn + walk" where
  "set_loop rec d a n [] st =
     (case set_elems (fst st) a of
        Inl e \<Rightarrow> Inl e
      | Inr cur \<Rightarrow> if length cur \<noteq> n then Inl set_changed else Inr st)"
| "set_loop rec d a n (val # vals) st =
     (case set_elems (fst st) a of
        Inl e \<Rightarrow> Inl e
      | Inr cur \<Rightarrow>
          if length cur \<noteq> n then Inl set_changed
          else
           (case rec val st of
              Inl e \<Rightarrow> Inl e
            | Inr r \<Rightarrow>
               (case py_eq d (fst (snd r)) (fst r) val of
                  Inl e \<Rightarrow> Inl e
                | Inr same \<Rightarrow>
                    if same then set_loop rec d a n vals (snd r)
                    else
                     (case set_remove d (fst (snd r)) a val of
                        Inl e \<Rightarrow> Inl e
                      | Inr h1 \<Rightarrow>
                         (case set_add d h1 a (fst r) of
                            Inl e \<Rightarrow> Inl e
                          | Inr h2 \<Rightarrow> set_loop rec d a n vals (h2, snd (snd r)))))))"

text \<open>The \<^verbatim>\<open>isinstance\<close> tests of the walk, on the value the rules have left.\<close>

datatype kind =
    KDict addr "string list"
  | KList addr nat
  | KTuple "pyval list"
  | KSet addr "pyval list"
  | KOther
  | KFault

definition kind_of :: "heap \<Rightarrow> pyval \<Rightarrow> kind" where
  "kind_of h v =
     (case v of
        PRef a \<Rightarrow>
          (case heap_get h a of
             None \<Rightarrow> KFault
           | Some (PDict f kvs) \<Rightarrow> KDict a (map fst kvs)
           | Some (PList xs) \<Rightarrow> KList a (length xs)
           | Some (PSet xs) \<Rightarrow> KSet a xs)
      | PTuple xs \<Rightarrow> KTuple xs
      | _ \<Rightarrow> KOther)"

text \<open>
  \<^verbatim>\<open>check_recursive\<close>.  \<open>d\<close> is the recursion depth the interpreter has left; each
  call takes one level.  A value found in \<^verbatim>\<open>checked\<close> ends the call with a bare
  \<^verbatim>\<open>return\<close>, which is \<^verbatim>\<open>None\<close>.  Otherwise the value as it came in is appended to
  \<^verbatim>\<open>checked\<close>, the rules are applied in order, and the result is walked by its type.
\<close>

fun check_recursive :: "nat \<Rightarrow> rule list \<Rightarrow> pyval \<Rightarrow> walk \<Rightarrow> exn + pyval \<times> walk" where
  "check_recursive d funcs obj st =
     (if d = 0 then Inl recursion_error
      else
       (case py_in (d - 1) (fst st) obj (snd st) of
          Inl e \<Rightarrow> Inl e
        | Inr seen \<Rightarrow>
            if seen then Inr (PNone, st)
            else
             (case apply_rules funcs obj (fst st) of
                Inl e \<Rightarrow> Inl e
              | Inr p \<Rightarrow>
                 (case kind_of (snd p) (fst p) of
                    KDict a ks \<Rightarrow>
                      (case dict_loop (check_recursive (d - 1) funcs) a ks (snd p, snd st @ [obj]) of
                         Inl e \<Rightarrow> Inl e
                       | Inr st' \<Rightarrow> Inr (fst p, st'))
                  | KList a n \<Rightarrow>
                      (case list_loop (check_recursive (d - 1) funcs) a [0..<n] (snd p, snd st @ [obj]) of
                         Inl e \<Rightarrow> Inl e
                       | Inr st' \<Rightarrow> Inr (fst p, st'))
                  | KTuple xs \<Rightarrow>
                      (case tuple_loop (check_recursive (d - 1) funcs) xs (snd p, snd st @ [obj]) of
                         Inl e \<Rightarrow> Inl e
                       | Inr q \<Rightarrow> Inr (PTuple (fst q), snd q))
                  | KSet a xs \<Rightarrow>
                      (case set_loop (check_recursive (d - 1) funcs) (d - 1) a (length xs) xs
                              (snd p, snd st @ [obj]) of
                         Inl e \<Rightarrow> Inl e
                       | Inr st' \<Rightarrow> Inr (fst p, st'))
                  | KOther \<Rightarrow> Inr (fst p, (snd p, snd st @ [obj]))
                  | KFault \<Rightarrow> Inl dangling))))"

text \<open>\<^verbatim>\<open>_validate_data(self, data, funcs)\<close>: a fresh \<^verbatim>\<open>checked\<close>, the walk from the
  root, and the value the walk returns (with the store as the walk has left it).\<close>

definition validate_data_impl :: "nat \<Rightarrow> rule list \<Rightarrow> pyval \<Rightarrow> heap \<Rightarrow> exn + pyval \<times> heap" where
  "validate_data_impl d funcs data h =
     (case check_recursive d funcs data (h, []) of
        Inl e \<Rightarrow> Inl e
      | Inr r \<Rightarrow> Inr (fst r, fst (snd r)))"


section \<open>The dumpers\<close>

subsection \<open>The tests and conversions of the rules\<close>

definition is_data :: "heap \<Rightarrow> pyval \<Rightarrow> exn + bool" where
  "is_data h x = Inr (case x of PData s \<Rightarrow> True | _ \<Rightarrow> False)"

text \<open>\<^verbatim>\<open>datetime.datetime\<close> is a subclass of \<^verbatim>\<open>datetime.date\<close>.\<close>

definition is_date :: "heap \<Rightarrow> pyval \<Rightarrow> exn + bool" where
  "is_date h x =
     Inr (case x of PDate y m d \<Rightarrow> True | PDatetime y m d hh mi s us \<Rightarrow> True | _ \<Rightarrow> False)"

definition is_datetime :: "heap \<Rightarrow> pyval \<Rightarrow> exn + bool" where
  "is_datetime h x = Inr (case x of PDatetime y m d hh mi s us \<Rightarrow> True | _ \<Rightarrow> False)"

definition is_none :: "heap \<Rightarrow> pyval \<Rightarrow> exn + bool" where
  "is_none h x = Inr (case x of PNone \<Rightarrow> True | _ \<Rightarrow> False)"

definition is_internal_dict :: "heap \<Rightarrow> pyval \<Rightarrow> exn + bool" where
  "is_internal_dict h x =
     Inr (case x of
            PRef a \<Rightarrow> (case heap_get h a of Some (PDict f kvs) \<Rightarrow> f | _ \<Rightarrow> False)
          | _ \<Rightarrow> False)"

text \<open>\<^verbatim>\<open>lambda x: x.data\<close>\<close>

definition get_data :: "heap \<Rightarrow> pyval \<Rightarrow> exn + pyval \<times> pyobj list" where
  "get_data h x =
     (case x of
        PData s \<Rightarrow> Inr (PStr s, [])
      | _ \<Rightarrow> Inl (Exn ''AttributeError'' ''data''))"

definition digit :: "nat \<Rightarrow> char" where
  "digit n = ''0123456789'' ! (n mod 10)"

definition two_digits :: "nat \<Rightarrow> string" where
  "two_digits n = [digit (n div 10), digit n]"

definition four_digits :: "nat \<Rightarrow> string" where
  "four_digits n = [digit (n div 1000), digit (n div 100), digit (n div 10), digit n]"

definition six_digits :: "nat \<Rightarrow> string" where
  "six_digits n =
     [digit (n div 100000), digit (n div 10000), digit (n div 1000),
      digit (n div 100), digit (n div 10), digit n]"

definition isoformat :: "nat \<Rightarrow> nat \<Rightarrow> nat \<Rightarrow> string" where
  "isoformat y m d = four_digits y @ ''-'' @ two_digits m @ ''-'' @ two_digits d"

text \<open>
  The builtin \<^verbatim>\<open>str\<close>.  Its text is written out for a date (\<^verbatim>\<open>YYYY-MM-DD\<close>), for a
  datetime (\<^verbatim>\<open>YYYY-MM-DD HH:MM:SS\<close>, with the microseconds when they are not zero) and for
  a string; the text of every other value is taken from \<open>fmt\<close>.
\<close>

definition py_str :: "(pyval \<Rightarrow> string) \<Rightarrow> heap \<Rightarrow> pyval \<Rightarrow> exn + pyval \<times> pyobj list" where
  "py_str fmt h x =
     (case x of
        PDate y m d \<Rightarrow> Inr (PStr (isoformat y m d), [])
      | PDatetime y m d hh mi s us \<Rightarrow>
          Inr (PStr (isoformat y m d @ '' '' @ two_digits hh @ '':'' @ two_digits mi @ '':'' @
                     two_digits s @ (if us = 0 then [] else ''.'' @ six_digits us)), [])
      | PStr s \<Rightarrow> Inr (PStr s, [])
      | _ \<Rightarrow> Inr (PStr (fmt x), []))"

text \<open>
  The builtin \<^verbatim>\<open>dict\<close> on a mapping: a new plain dict with the same items, at the next
  free address.  The rule that calls it passes mappings only; for any other argument the
  model answers the \<^verbatim>\<open>TypeError\<close> of an argument that cannot be iterated.
\<close>

definition py_dict :: "heap \<Rightarrow> pyval \<Rightarrow> exn + pyval \<times> pyobj list" where
  "py_dict h x =
     (case x of
        PRef a \<Rightarrow>
          (case heap_get h a of
             Some (PDict f kvs) \<Rightarrow> Inr (PRef (length h), [PDict False kvs])
           | _ \<Rightarrow> Inl (Exn ''TypeError'' ''cannot convert dictionary update sequence''))
      | _ \<Rightarrow> Inl (Exn ''TypeError'' ''object is not iterable''))"

subsection \<open>\<^verbatim>\<open>validate_data\<close> of each class\<close>

text \<open>\<^verbatim>\<open>DumperProto.validate_data\<close>: the body is \<^verbatim>\<open>pass\<close>, so the call returns
  \<^verbatim>\<open>None\<close>.\<close>

definition DumperProto_validate_data :: "pyval \<Rightarrow> heap \<Rightarrow> exn + pyval \<times> heap" where
  "DumperProto_validate_data data h = Inr (PNone, h)"

definition JSONDumper_rules :: "(pyval \<Rightarrow> string) \<Rightarrow> rule list" where
  "JSONDumper_rules fmt =
     [(is_data, PyFun get_data),
      (is_date, PyFun (py_str fmt)),
      (is_datetime, PyFun (py_str fmt))]"

definition JSONDumper_validate_data ::
  "nat \<Rightarrow> (pyval \<Rightarrow> string) \<Rightarrow> pyval \<Rightarrow> heap \<Rightarrow> exn + pyval \<times> heap" where
  "JSONDumper_validate_data depth fmt data h = validate_data_impl depth (JSONDumper_rules fmt) data h"

definition PlistDumper_rules :: "(pyval \<Rightarrow> string) \<Rightarrow> rule list" where
  "PlistDumper_rules fmt =
     [(is_date, PyFun (py_str fmt)),
      (is_none, PyConst (PBool False))]"

definition PlistDumper_validate_data ::
  "nat \<Rightarrow> (pyval \<Rightarrow> string) \<Rightarrow> pyval \<Rightarrow> heap \<Rightarrow> exn + pyval \<times> heap" where
  "PlistDumper_validate_data depth fmt data h = validate_data_impl depth (PlistDumper_rules fmt) data h"

definition YAMLDumper_rules :: "rule list" where
  "YAMLDumper_rules =
     [(is_internal_dict, PyFun py_dict),
      (is_data, PyFun get_data)]"

definition YAMLDumper_validate_data :: "nat \<Rightarrow> pyval \<Rightarrow> heap \<Rightarrow> exn + pyval \<times> heap" where
  "YAMLDumper_validate_data depth data h = validate_data_impl depth YAMLDumper_rules data h"

subsection \<open>\<^verbatim>\<open>DumperProto.dump\<close>\<close>

text \<open>
  The output panel is the collaborator behind \<^verbatim>\<open>self.output\<close>: \<^verbatim>\<open>write_line\<close> appends a
  line, \<^verbatim>\<open>show\<close> makes the panel visible.
\<close>

record panel =
  lines :: "string list"
  visible :: bool

definition write_line :: "panel \<Rightarrow> string \<Rightarrow> panel" where
  "write_line p s = p\<lparr>lines := lines p @ [s]\<rparr>"

definition write_lines :: "panel \<Rightarrow> string list \<Rightarrow> panel" where
  "write_lines p ss = p\<lparr>lines := lines p @ ss\<rparr>"

definition show_panel :: "panel \<Rightarrow> panel" where
  "show_panel p = p\<lparr>visible := True\<rparr>"

text \<open>
  A dumper instance: the attributes \<^verbatim>\<open>dump\<close> reads and the two methods it calls
  (\<open>write_method\<close> is \<^verbatim>\<open>write\<close>).  \<^verbatim>\<open>write\<close> answers with the lines it has sent to the panel and with its outcome, an
  exception or a normal return.
\<close>

record dumper =
  name :: string
  ext :: string
  new_file_path :: string
  validate_data :: "pyval \<Rightarrow> heap \<Rightarrow> exn + pyval \<times> heap"
  write_method :: "pyval \<Rightarrow> heap \<Rightarrow> string list \<times> (exn + unit)"

definition writing_line :: "dumper \<Rightarrow> string" where
  "writing_line d = ''Writing '' @ name d @ ''... ('' @ new_file_path d @ '')''"

definition error_line :: "dumper \<Rightarrow> exn \<Rightarrow> string" where
  "error_line d e = ''Error writing '' @ name d @ '': '' @ exn_str e"

text \<open>
  \<^verbatim>\<open>dump\<close> returns \<^verbatim>\<open>True\<close> from the \<^verbatim>\<open>else\<close> of its \<^verbatim>\<open>try\<close> and falls off its end,
  which is \<^verbatim>\<open>None\<close>, after the handler.  The call of \<^verbatim>\<open>validate_data\<close> stands before the
  \<^verbatim>\<open>try\<close>: an exception of it leaves \<^verbatim>\<open>dump\<close>.
\<close>

definition dump :: "dumper \<Rightarrow> pyval \<Rightarrow> heap \<Rightarrow> panel \<Rightarrow> (exn + pyval) \<times> panel" where
  "dump d data h p =
     (let p1 = show_panel (write_line p (writing_line d)) in
      case validate_data d data h of
        Inl e \<Rightarrow> (Inl e, p1)
      | Inr r \<Rightarrow>
         (case write_method d (fst r) (snd r) of
            (out, Inl e) \<Rightarrow> (Inr PNone, write_line (write_lines p1 out) (error_line d e))
          | (out, Inr u) \<Rightarrow> (Inr (PBool True), write_lines p1 out)))"


text \<open>
  The instances.  What \<^verbatim>\<open>write\<close> does to the file system (\<^verbatim>\<open>open\<close> and the encoder of
  \<^verbatim>\<open>json\<close>, \<^verbatim>\<open>plistlib\<close> or \<^verbatim>\<open>yaml\<close>) is the parameter \<open>w\<close>; \<^verbatim>\<open>DumperProto.write\<close> is
  \<^verbatim>\<open>pass\<close>.
\<close>

definition DumperProto :: "string \<Rightarrow> dumper" where
  "DumperProto path =
     \<lparr>name = [], ext = [], new_file_path = path,
      validate_data = DumperProto_validate_data,
      write_method = (\<lambda>data h. ([], Inr ()))\<rparr>"

definition JSONDumper ::
  "nat \<Rightarrow> (pyval \<Rightarrow> string) \<Rightarrow> string \<Rightarrow> (pyval \<Rightarrow> heap \<Rightarrow> string list \<times> (exn + unit)) \<Rightarrow> dumper" where
  "JSONDumper depth fmt path w =
     \<lparr>name = ''JSON'', ext = ''json'', new_file_path = path,
      validate_data = JSONDumper_validate_data depth fmt,
      write_method = w\<rparr>"

definition PlistDumper ::
  "nat \<Rightarrow> (pyval \<Rightarrow> string) \<Rightarrow> string \<Rightarrow> (pyval \<Rightarrow> heap \<Rightarrow> string list \<times> (exn + unit)) \<Rightarrow> dumper" where
  "PlistDumper depth fmt path w =
     \<lparr>name = ''Property List'', ext = ''plist'', new_file_path = path,
      validate_data = PlistDumper_validate_data depth fmt,
      write_method = w\<rparr>"

definition YAMLDumper ::
  "nat \<Rightarrow> string \<Rightarrow> (pyval \<Rightarrow> heap \<Rightarrow> string list \<times> (exn + unit)) \<Rightarrow> dumper" where
  "YAMLDumper depth path w =
     \<lparr>name = ''YAML'', ext = ''yaml'', new_file_path = path,
      validate_data = YAMLDumper_validate_data depth,
      write_method = w\<rparr>"

section \<open>The registry \<^verbatim>\<open>get\<close>\<close>

text \<open>
  A class: its name, its bases and the attributes its body assigns.  A global of the
  module is a class or an object that has no \<^verbatim>\<open>__bases__\<close> (a module, a dict, a string,
  \<^verbatim>\<open>None\<close>).
\<close>

datatype pyclass = PyClass (cls_name: string) (cls_bases: "pyclass list") (cls_attrs: "(string \<times> string) list")

datatype global = GClass pyclass | GObject

fun issubclass :: "pyclass \<Rightarrow> pyclass \<Rightarrow> bool" where
  "issubclass (PyClass n bs as) b =
     (PyClass n bs as = b \<or> list_ex (\<lambda>c. issubclass c b) bs)"

text \<open>Attribute lookup on a class: its own body first, then its bases from left to
  right.\<close>

fun first_some :: "'a option list \<Rightarrow> 'a option" where
  "first_some [] = None"
| "first_some (x # xs) = (case x of None \<Rightarrow> first_some xs | Some v \<Rightarrow> Some v)"

fun class_attr :: "pyclass \<Rightarrow> string \<Rightarrow> string option" where
  "class_attr (PyClass n bs as) k =
     (case map_of as k of
        Some v \<Rightarrow> Some v
      | None \<Rightarrow> first_some (map (\<lambda>c. class_attr c k) bs))"

definition object_class :: pyclass where
  "object_class = PyClass ''object'' [] []"

definition DumperProto_class :: pyclass where
  "DumperProto_class =
     PyClass ''DumperProto'' [object_class]
       [(''name'', []), (''ext'', []), (''output_panel_name'', ''aaa_package_dev'')]"

definition JSONDumper_class :: pyclass where
  "JSONDumper_class =
     PyClass ''JSONDumper'' [DumperProto_class] [(''name'', ''JSON''), (''ext'', ''json'')]"

definition PlistDumper_class :: pyclass where
  "PlistDumper_class =
     PyClass ''PlistDumper'' [DumperProto_class] [(''name'', ''Property List''), (''ext'', ''plist'')]"

definition YAMLDumper_class :: pyclass where
  "YAMLDumper_class =
     PyClass ''YAMLDumper'' [DumperProto_class] [(''name'', ''YAML''), (''ext'', ''yaml'')]"

text \<open>
  The globals of the module when the loop starts, in the order of \<^verbatim>\<open>dir()\<close> (sorted by
  name).  \<^verbatim>\<open>OutputPanel\<close> is imported from \<^verbatim>\<open>sublime_lib\<close>; its class is the parameter.
\<close>

definition module_globals :: "pyclass \<Rightarrow> (string \<times> global) list" where
  "module_globals OutputPanel =
     [(''DumperProto'', GClass DumperProto_class),
      (''JSONDumper'', GClass JSONDumper_class),
      (''OutputPanel'', GClass OutputPanel),
      (''PlistDumper'', GClass PlistDumper_class),
      (''YAMLDumper'', GClass YAMLDumper_class),
      (''__builtins__'', GObject),
      (''__doc__'', GObject),
      (''__file__'', GObject),
      (''__name__'', GObject),
      (''__package__'', GObject),
      (''datetime'', GObject),
      (''get'', GObject),
      (''json'', GObject),
      (''plistlib'', GObject),
      (''yaml'', GObject)]"

type_synonym registry = "(string \<times> pyclass) list"

text \<open>
  The body of the loop for one name.  \<^verbatim>\<open>globals()[type_name]\<close> raises \<^verbatim>\<open>KeyError\<close> for a
  name that is not there, which the handler does not catch.  \<^verbatim>\<open>t.__bases__\<close> and
  \<^verbatim>\<open>t.ext\<close> raise \<^verbatim>\<open>AttributeError\<close> where the attribute is missing; the handler
  catches it and the registry stays as it is.
\<close>

definition register :: "(string \<times> global) list \<Rightarrow> string \<Rightarrow> registry \<Rightarrow> exn + registry" where
  "register globs type_name get =
     (case map_of globs type_name of
        None \<Rightarrow> Inl (key_error type_name)
      | Some t \<Rightarrow>
         (case t of
            GObject \<Rightarrow> Inr get
          | GClass c \<Rightarrow>
              if cls_bases c \<noteq> [] then
                if issubclass c DumperProto_class \<and> \<not> c = DumperProto_class then
                  (case class_attr c ''ext'' of
                     None \<Rightarrow> Inr get
                   | Some e \<Rightarrow> Inr (dict_set e c get))
                else Inr get
              else Inr get))"

fun collect :: "(string \<times> global) list \<Rightarrow> string list \<Rightarrow> registry \<Rightarrow> exn + registry" where
  "collect globs [] get = Inr get"
| "collect globs (n # ns) get =
     (case register globs n get of
        Inl e \<Rightarrow> Inl e
      | Inr get' \<Rightarrow> collect globs ns get')"

text \<open>\<^verbatim>\<open>get = dict()\<close> and the loop over \<^verbatim>\<open>dir()\<close>.\<close>

definition build_get :: "pyclass \<Rightarrow> exn + registry" where
  "build_get OutputPanel =
     collect (module_globals OutputPanel) (map fst (module_globals OutputPanel)) []"

text \<open>\<^verbatim>\<open>get[extension]\<close>\<close>

definition lookup :: "registry \<Rightarrow> string \<Rightarrow> exn + pyclass" where
  "lookup get extension =
     (case map_of get extension of
        None \<Rightarrow> Inl (key_error extension)
      | Some t \<Rightarrow> Inr t)"


section \<open>Evaluation\<close>

text \<open>The definitions that a closed call of the sanitiser unfolds.\<close>

lemmas store_defs = heap_get_def list_item_def list_store_def dict_item_def dict_store_def
  set_elems_def set_remove_def set_add_def kind_of_def

lemmas eq_defs = py_in_def cmp_vals_def cmp_objs_def scalar_eq_def

section \<open>Properties of \<^verbatim>\<open>dump\<close>\<close>

lemmas panel_defs = write_line_def write_lines_def show_panel_def writing_line_def error_line_def

text \<open>
  C9.  Whatever \<^verbatim>\<open>validate_data\<close> and \<^verbatim>\<open>write\<close> do afterwards, \<^verbatim>\<open>dump\<close> has first
  appended the line \<^verbatim>\<open>Writing <name>... (<new_file_path>)\<close> to the panel and made the
  panel visible: the line stands directly after the lines the panel had, before anything
  \<^verbatim>\<open>write\<close> or the handler sends, and the panel is visible in the end, whether the call
  returns \<^verbatim>\<open>True\<close>, returns \<^verbatim>\<open>None\<close> or raises.
\<close>

theorem dump_writes_progress_line_first:
  "\<exists>rest. lines (snd (dump d data h p)) =
      lines p @ [''Writing '' @ name d @ ''... ('' @ new_file_path d @ '')''] @ rest
    \<and> visible (snd (dump d data h p))"
  by (auto simp: dump_def Let_def panel_defs split: sum.splits prod.splits)

text \<open>
  C6.  When \<^verbatim>\<open>validate_data\<close> returns and \<^verbatim>\<open>write\<close> raises an exception \<open>e\<close>,
  \<^verbatim>\<open>dump\<close> returns \<^verbatim>\<open>None\<close> (not \<^verbatim>\<open>True\<close>, and no exception leaves it), and what it has
  added to the panel is the progress line, the lines \<^verbatim>\<open>write\<close> itself has sent, and one
  line \<^verbatim>\<open>Error writing <name>: <str(e)>\<close>.
\<close>

theorem dump_write_failure:
  assumes "validate_data d data h = Inr (v, h')"
    and "write_method d v h' = (out, Inl e)"
  shows "dump d data h p =
     (Inr PNone,
      p\<lparr>lines := lines p @ [writing_line d] @ out @
                 [''Error writing '' @ name d @ '': '' @ exn_str e],
        visible := True\<rparr>)"
  using assms by (simp add: dump_def Let_def panel_defs)

theorem dump_write_failure_witness:
  "validate_data
      (JSONDumper 10 (\<lambda>v. []) ''/no/such/dir/out.json''
         (\<lambda>v h. ([], Inl (Exn ''IOError'' ''No such file or directory''))))
      (PRef 0) [PDict False [(''a'', PInt 1)]]
     = Inr (PRef 0, [PDict False [(''a'', PInt 1)]]) \<and>
   dump
      (JSONDumper 10 (\<lambda>v. []) ''/no/such/dir/out.json''
         (\<lambda>v h. ([], Inl (Exn ''IOError'' ''No such file or directory''))))
      (PRef 0) [PDict False [(''a'', PInt 1)]] \<lparr>lines = [], visible = False\<rparr>
     = (Inr PNone,
        \<lparr>lines = [''Writing JSON... (/no/such/dir/out.json)'',
                  ''Error writing JSON: No such file or directory''],
         visible = True\<rparr>)"
proof -
  let ?w = "\<lambda>(v::pyval) (h::heap). ([]::string list, Inl (Exn ''IOError'' ''No such file or directory'') :: exn + unit)"
  let ?d = "JSONDumper 10 (\<lambda>v. []) ''/no/such/dir/out.json'' ?w"
  let ?h = "[PDict False [(''a'', PInt 1)]]"
  have v: "validate_data ?d (PRef 0) ?h = Inr (PRef 0, ?h)"
    by (simp add: JSONDumper_def JSONDumper_validate_data_def JSONDumper_rules_def
        validate_data_impl_def store_defs eq_defs is_date_def is_data_def is_datetime_def)
  have w: "write_method ?d (PRef 0) ?h = ([], Inl (Exn ''IOError'' ''No such file or directory''))"
    by (simp add: JSONDumper_def)
  show ?thesis
    using v dump_write_failure [OF v w, of "\<lparr>lines = [], visible = False\<rparr>"]
    by (simp add: JSONDumper_def panel_defs)
qed

text \<open>
  C1, as the code has it.  The call of \<^verbatim>\<open>validate_data\<close> stands before the \<^verbatim>\<open>try\<close>:
  when it raises \<open>e\<close>, that exception leaves \<^verbatim>\<open>dump\<close>.  By then the progress line has
  been written and the panel shown; no error line is written and \<^verbatim>\<open>write\<close> is not
  called.
\<close>

theorem dump_validate_failure_escapes:
  assumes "validate_data d data h = Inl e"
  shows "dump d data h p = (Inl e, p\<lparr>lines := lines p @ [writing_line d], visible := True\<rparr>)"
  using assms by (simp add: dump_def Let_def panel_defs)

theorem dump_validate_failure_escapes_witness:
  "validate_data (PlistDumper 10 (\<lambda>v. []) ''out.plist'' (\<lambda>v h. ([], Inr ())))
      (PRef 0) [PList [PNone]]
     = Inl (Exn ''TypeError'' (CHR 0x27 # ''bool'' @ CHR 0x27 # '' object is not callable'')) \<and>
   dump (PlistDumper 10 (\<lambda>v. []) ''out.plist'' (\<lambda>v h. ([], Inr ())))
      (PRef 0) [PList [PNone]] \<lparr>lines = [''earlier''], visible = False\<rparr>
     = (Inl (Exn ''TypeError'' (CHR 0x27 # ''bool'' @ CHR 0x27 # '' object is not callable'')),
        \<lparr>lines = [''earlier'', ''Writing Property List... (out.plist)''], visible = True\<rparr>)"
proof -
  let ?d = "PlistDumper 10 (\<lambda>v. []) ''out.plist'' (\<lambda>v h. ([], Inr ()))"
  have v: "validate_data ?d (PRef 0) [PList [PNone]] =
      Inl (Exn ''TypeError'' (CHR 0x27 # ''bool'' @ CHR 0x27 # '' object is not callable''))"
    by (simp add: PlistDumper_def PlistDumper_validate_data_def PlistDumper_rules_def
        validate_data_impl_def store_defs eq_defs is_date_def is_none_def not_callable_def
        py_type_def)
  show ?thesis
    using v dump_validate_failure_escapes [OF v, of "\<lparr>lines = [''earlier''], visible = False\<rparr>"]
    by (simp add: PlistDumper_def panel_defs)
qed

text \<open>
  C1, as the claim states it, fails: with the property list dumper and the value
  \<^verbatim>\<open>None\<close>, \<^verbatim>\<open>validate_data\<close> raises \<^verbatim>\<open>TypeError\<close>; the exception is the outcome of
  \<^verbatim>\<open>dump\<close>, and the panel holds the progress line only.
\<close>

theorem dump_validate_failure_counterexample:
  "dump (PlistDumper 10 (\<lambda>v. []) ''out.plist'' (\<lambda>v h. ([], Inr ())))
      PNone [] \<lparr>lines = [], visible = False\<rparr>
     = (Inl (Exn ''TypeError'' (CHR 0x27 # ''bool'' @ CHR 0x27 # '' object is not callable'')),
        \<lparr>lines = [''Writing Property List... (out.plist)''], visible = True\<rparr>)"
  by (simp add: dump_def Let_def panel_defs PlistDumper_def PlistDumper_validate_data_def
      PlistDumper_rules_def validate_data_impl_def store_defs eq_defs is_date_def is_none_def
      not_callable_def py_type_def)

text \<open>
  C3.  \<^verbatim>\<open>DumperProto.validate_data\<close> returns \<^verbatim>\<open>None\<close> for every value, so a dumper
  that does not override it hands \<^verbatim>\<open>None\<close> to \<^verbatim>\<open>write\<close>, whatever the data were: the
  outcome of \<^verbatim>\<open>dump\<close> is that of \<^verbatim>\<open>write\<close> on \<^verbatim>\<open>None\<close>.
\<close>

theorem base_validate_data_gives_none:
  "DumperProto_validate_data data h = Inr (PNone, h) \<and>
   dump (d\<lparr>validate_data := DumperProto_validate_data\<rparr>) data h p =
     (case write_method d PNone h of
        (out, Inl e) \<Rightarrow>
          (Inr PNone,
           p\<lparr>lines := lines p @ [writing_line d] @ out @ [error_line d e], visible := True\<rparr>)
      | (out, Inr u) \<Rightarrow>
          (Inr (PBool True),
           p\<lparr>lines := lines p @ [writing_line d] @ out, visible := True\<rparr>))"
  by (simp add: DumperProto_validate_data_def dump_def Let_def panel_defs
      split: sum.splits prod.splits)

text \<open>The same at a value: the base class, given a string, writes \<^verbatim>\<open>None\<close>.  The
  \<^verbatim>\<open>write\<close> of this instance reports the type of what it is given.\<close>

lemma base_dump_example:
  "dump ((DumperProto ''out.txt'')\<lparr>write_method := (\<lambda>v h. ([py_type h v], Inr ()))\<rparr>)
      (PStr ''some data'') [] \<lparr>lines = [], visible = False\<rparr>
     = (Inr (PBool True), \<lparr>lines = [''Writing ... (out.txt)'', ''NoneType''], visible = True\<rparr>)"
  by (simp add: dump_def Let_def panel_defs DumperProto_def DumperProto_validate_data_def
      py_type_def)

end
